theory Spec2Isabelle
  imports Main
begin

section \<open>The token cookie store of \<open>src/lib/cookie_storage.ts\<close>\<close>

text \<open>
  The class \<open>AuthCookieStorage\<close> keeps three token strings, a persistence flag, the
  decoded claims of the identity token and the last cookie string it has read. Its five
  methods read and write these fields, assign serialized cookies to \<open>document.cookie\<close>
  and log to the console. The model passes that state explicitly: every method takes the
  world before the call and returns what the call returns (or the exception it throws)
  together with the world after it.

  Three packages are imported by the source and are not part of it: \<open>cookie\<close>
  (\<open>parse\<close>, \<open>serialize\<close>), \<open>jwt-decode\<close> and \<open>date-fns\<close> (\<open>add\<close>, \<open>isAfter\<close>).
  \<open>parse\<close>, the token decoder, \<open>add\<close> and the system clock are parameters of the model
  (the record \<open>env\<close>). \<open>serialize\<close> tests the cookie name as the package does and
  throws on a name it rejects; its result is kept symbolic, as the triple of its
  arguments.
\<close>

subsection \<open>Values\<close>

text \<open>A thrown JavaScript exception, by constructor and message.\<close>

datatype error = Error string | TypeError string | InvalidTokenError string

text \<open>What a method returns when it returns the instance or nothing.\<close>

datatype retval = This | Undefined

text \<open>
  A \<open>Date\<close> object: a time value in milliseconds since the epoch, or the invalid date.
  \<open>new Date(v)\<close> clips: a time value beyond 8.64e15 ms in either direction gives the
  invalid date.
\<close>

datatype date = Date int | Invalid_Date

definition new_Date_of :: "int \<Rightarrow> date" where
  "new_Date_of v = (if \<bar>v\<bar> \<le> 8640000000000000 then Date v else Invalid_Date)"

text \<open>
  \<open>isAfter\<close> of date-fns compares the two time values with \<open>>\<close>; the time value of
  an invalid date is NaN, and every comparison with NaN is false.
\<close>

fun isAfter :: "date \<Rightarrow> date \<Rightarrow> bool" where
  "isAfter (Date a) (Date b) = (b < a)"
| "isAfter _ _ = False"

text \<open>The argument of date-fns's \<open>add\<close>; the source only ever sets \<open>years\<close>.\<close>

record Duration =
  years :: int

text \<open>
  \<open>CognitoDefaultProps\<close> under \<open>Partial\<close>: every field may be absent. Numbers are
  integers here (\<open>exp\<close>, \<open>iat\<close> and \<open>auth_time\<close> count seconds).
\<close>

record claims =
  sub :: "string option"
  email_verified :: "bool option"
  iss :: "string option"
  aud :: "string option"
  event_id :: "string option"
  token_use :: "string option"
  auth_time :: "int option"
  exp :: "int option"
  iat :: "int option"
  email :: "string option"
  origin_jti :: "string option"
  cognito_username :: "string option"

text \<open>The object literal \<open>{}\<close>: no field is present.\<close>

definition empty_claims :: claims where
  "empty_claims =
     \<lparr>sub = None, email_verified = None, iss = None, aud = None, event_id = None,
      token_use = None, auth_time = None, exp = None, iat = None, email = None,
      origin_jti = None, cognito_username = None\<rparr>"

text \<open>
  What the decoder returns when it returns: the parsed payload of the token. The type
  parameter \<open>T\<close> promises an object, but a token whose payload is the JSON text
  \<open>null\<close> decodes to \<open>null\<close>.
\<close>

datatype payload = Null | Object claims

text \<open>The three fields of \<open>CookieSerializeOptions\<close> the source sets.\<close>

record CookieSerializeOptions =
  expires :: "date option"
  maxAge :: "int option"
  path :: "string option"

text \<open>
  A serialized cookie: the string \<open>cookie.serialize(name, value, options)\<close> returns is
  not spelled out, it stands for the three arguments of the call.
\<close>

record cookie =
  cookie_name :: string
  cookie_value :: string
  cookie_options :: CookieSerializeOptions

text \<open>
  \<open>cookie.serialize\<close> tests the name against the package's pattern for field content
  and throws a \<open>TypeError\<close> when it does not match: the name must not be empty, and
  each of its characters must be a TAB or lie at or above the space, DEL excepted.
  (A \<open>char\<close> is a code unit below 256; the pattern also rejects every code unit from
  256 on.) The value is percent-encoded before it is tested and always passes, and the
  options the source passes are accepted.
\<close>

definition field_char :: "char \<Rightarrow> bool" where
  "field_char c = (c = CHR 0x09 \<or> (32 \<le> (of_char c :: nat) \<and> (of_char c :: nat) \<noteq> 127))"

definition field_content :: "string \<Rightarrow> bool" where
  "field_content s = (s \<noteq> [] \<and> list_all field_char s)"

definition serialize :: "string \<Rightarrow> string \<Rightarrow> CookieSerializeOptions \<Rightarrow> error + cookie" where
  "serialize name val options =
     (if field_content name
      then Inr \<lparr>cookie_name = name, cookie_value = val, cookie_options = options\<rparr>
      else Inl (TypeError ''argument name is invalid''))"

text \<open>
  The values of an object literal, or of a sequence of statements, are computed in
  order; the first one that throws ends the computation.
\<close>

fun collect :: "(error + 'a) list \<Rightarrow> error + 'a list" where
  "collect [] = Inr []"
| "collect (Inl err # rest) = Inl err"
| "collect (Inr x # rest) =
     (case collect rest of Inl err \<Rightarrow> Inl err | Inr xs \<Rightarrow> Inr (x # xs))"

definition DAY :: int where
  "DAY = 60 * 60 * 24"

subsection \<open>The environment and the state\<close>

text \<open>
  What the class takes from outside: whether \<open>window\<close> is defined, \<open>cookie.parse\<close>,
  the decoder of \<open>jwt-decode\<close> (it throws on a token that is missing or malformed),
  the system clock (its \<open>n\<close>-th reading, in milliseconds) and \<open>add\<close> of date-fns.
\<close>

record env =
  window :: bool
  parse :: "string \<Rightarrow> (string \<rightharpoonup> string)"
  jwt :: "string option \<Rightarrow> error + payload"
  clock :: "nat \<Rightarrow> int"
  add :: "date \<Rightarrow> Duration \<Rightarrow> date"

text \<open>
  The fields of an instance. Only \<open>prefix\<close> is assigned by every construction; the
  others are \<open>undefined\<close> (\<open>None\<close>) until a method assigns them.
\<close>

record AuthCookieStorage =
  prefix :: string
  id_token :: "string option"
  access_token :: "string option"
  refresh_token :: "string option"
  persist :: "bool option"
  user :: "payload option"
  cookie_string :: "string option"

text \<open>
  The world a method runs in: the instance, the cookies assigned to
  \<open>document.cookie\<close> so far (oldest first), the messages given to \<open>console.error\<close>,
  and how often the clock has been read.
\<close>

record world =
  this :: AuthCookieStorage
  document_cookie :: "cookie list"
  console_error :: "string list"
  clock_reads :: nat

text \<open>Truthiness of a string that may be \<open>undefined\<close>: defined and not empty.\<close>

fun truthy :: "string option \<Rightarrow> bool" where
  "truthy None = False"
| "truthy (Some s) = (s \<noteq> [])"

text \<open>\<open>s || ""\<close>.\<close>

fun or_empty :: "string option \<Rightarrow> string" where
  "or_empty None = []"
| "or_empty (Some s) = s"

text \<open>\<open>new Date()\<close>: the next reading of the clock.\<close>

definition new_Date :: "env \<Rightarrow> world \<Rightarrow> date \<times> world" where
  "new_Date e w = (Date (clock e (clock_reads w)), w\<lparr>clock_reads := Suc (clock_reads w)\<rparr>)"

text \<open>\<open>document.cookie = c\<close>.\<close>

definition assign_document_cookie :: "cookie \<Rightarrow> world \<Rightarrow> world" where
  "assign_document_cookie c w = w\<lparr>document_cookie := document_cookie w @ [c]\<rparr>"

text \<open>\<open>xs.forEach(f)\<close>: the callback runs on each element in turn until one throws.\<close>

fun forEach ::
  "('a \<Rightarrow> world \<Rightarrow> (error + unit) \<times> world) \<Rightarrow> 'a list \<Rightarrow> world \<Rightarrow> (error + unit) \<times> world" where
  "forEach f [] w = (Inr (), w)"
| "forEach f (x # xs) w =
     (case f x w of
        (Inl err, w1) \<Rightarrow> (Inl err, w1)
      | (Inr u, w1) \<Rightarrow> forEach f xs w1)"

subsection \<open>The methods\<close>

text \<open>
  \<open>getTokens(cookie_string = this.cookie_string)\<close>: the default applies when no
  argument is passed. With no truthy cookie string at all it returns at once; otherwise
  it caches the string, parses it and copies the four prefixed entries into the fields.
\<close>

definition getTokens :: "env \<Rightarrow> string option \<Rightarrow> world \<Rightarrow> (error + retval) \<times> world" where
  "getTokens e arg w =
     (let cs = (case arg of None \<Rightarrow> cookie_string (this w) | Some c \<Rightarrow> Some c) in
      if \<not> truthy cs \<and> \<not> truthy (cookie_string (this w)) then (Inr This, w)
      else
        let cookies = parse e (or_empty cs);
            p = prefix (this w);
            keep = cookies (p @ '':keep'')
        in (Inr This,
            w\<lparr>this := (this w)
                 \<lparr>cookie_string := cs,
                  access_token := cookies (p @ '':access_token''),
                  id_token := cookies (p @ '':id_token''),
                  refresh_token := cookies (p @ '':refresh_token''),
                  persist := Some (truthy keep)\<rparr>\<rparr>))"

text \<open>
  The constructor, from an arbitrary world: it makes the instance with its prefix, and
  reads the tokens when it is given a truthy cookie string.
\<close>

definition constructor :: "env \<Rightarrow> string \<Rightarrow> string option \<Rightarrow> world \<Rightarrow> world" where
  "constructor e prefix' cookie_string' w =
     (let w1 = w\<lparr>this :=
                  \<lparr>prefix = prefix', id_token = None, access_token = None,
                   refresh_token = None, persist = None, user = None,
                   cookie_string = None\<rparr>\<rparr>
      in if \<not> truthy cookie_string' then w1
         else snd (getTokens e cookie_string'
                     (w1\<lparr>this := (this w1)\<lparr>cookie_string := cookie_string'\<rparr>\<rparr>)))"

text \<open>
  \<open>setTokens({ access_token, id_token, refresh_token, persist })\<close>. The clock is read
  only when \<open>persist\<close> is truthy. All cookies are serialized (id, access, refresh, then
  keep) before any field is assigned and before anything is written, so a name that
  \<open>serialize\<close> rejects ends the call with nothing written. The entries of \<open>cookies\<close>
  are assigned to \<open>document.cookie\<close> in the order they were inserted.
\<close>

definition setTokens ::
  "env \<Rightarrow> string \<Rightarrow> string \<Rightarrow> string \<Rightarrow> bool option \<Rightarrow> world \<Rightarrow> (error + retval) \<times> world" where
  "setTokens e access_token' id_token' refresh_token' persist' w =
     (if \<not> window e
      then (Inl (Error ''Trying to set cookie in a server-side environment''), w)
      else
        let keeping = (persist' = Some True);
            (expires', w1) =
              (if keeping
               then (let (now, w') = new_Date e w in (Some (add e now \<lparr>years = 1\<rparr>), w'))
               else (None, w));
            cookies_options =
              \<lparr>expires = expires',
               maxAge = (if keeping then Some (365 * DAY) else None),
               path = None\<rparr>;
            p = prefix (this w1)
        in case collect
                  ([serialize (p @ '':id_token'') id_token' cookies_options,
                    serialize (p @ '':access_token'') access_token' cookies_options,
                    serialize (p @ '':refresh_token'') refresh_token' cookies_options]
                   @ (if keeping then [serialize (p @ '':keep'') ''true'' cookies_options]
                      else []))
           of
             Inl err \<Rightarrow> (Inl err, w1)
           | Inr cookies \<Rightarrow>
               (Inr This,
                fold assign_document_cookie cookies
                  (w1\<lparr>this := (this w1)
                        \<lparr>access_token := Some access_token',
                         id_token := Some id_token',
                         refresh_token := Some refresh_token',
                         persist := Some keeping\<rparr>\<rparr>)))"

text \<open>
  \<open>clearTokens()\<close>. Without a window it logs and returns with a bare \<open>return\<close>.
  Otherwise each of the four names, in the order of the object literal, is serialized
  with an empty value, \<open>expires: new Date()\<close> and \<open>path: "/"\<close>, and assigned.
\<close>

definition clear_one :: "env \<Rightarrow> string \<Rightarrow> world \<Rightarrow> (error + unit) \<times> world" where
  "clear_one e cookie_name' w =
     (let (now, w1) = new_Date e w
      in case serialize cookie_name' ''''
                \<lparr>expires = Some now, maxAge = None, path = Some ''/''\<rparr>
         of
           Inl err \<Rightarrow> (Inl err, w1)
         | Inr updated_cookie \<Rightarrow> (Inr (), assign_document_cookie updated_cookie w1))"

definition clearTokens :: "env \<Rightarrow> world \<Rightarrow> (error + retval) \<times> world" where
  "clearTokens e w =
     (if \<not> window e
      then (Inr Undefined,
            w\<lparr>console_error := console_error w
                 @ [''Trying to remove cookie in a server-side environment'']\<rparr>)
      else
        let p = prefix (this w);
            cookies_to_delete =
              [p @ '':access_token'', p @ '':id_token'', p @ '':refresh_token'', p @ '':keep'']
        in case forEach (clear_one e) cookies_to_delete w of
             (Inl err, w1) \<Rightarrow> (Inl err, w1)
           | (Inr u, w1) \<Rightarrow> (Inr This, w1))"

text \<open>
  \<open>decode()\<close>: the decoder runs inside \<open>try\<close>; the \<open>catch\<close> branch assigns \<open>{}\<close>.
\<close>

definition decode :: "env \<Rightarrow> world \<Rightarrow> (error + retval) \<times> world" where
  "decode e w =
     (case jwt e (id_token (this w)) of
        Inr decoded \<Rightarrow> (Inr This, w\<lparr>this := (this w)\<lparr>user := Some decoded\<rparr>\<rparr>)
      | Inl err \<Rightarrow> (Inr This, w\<lparr>this := (this w)\<lparr>user := Some (Object empty_claims)\<rparr>\<rparr>))"

text \<open>
  \<open>isExpired()\<close>: \<open>this.decode().user\<close> is destructured for \<open>exp\<close>, outside any
  \<open>try\<close>: destructuring \<open>null\<close> (or \<open>undefined\<close>) throws a \<open>TypeError\<close>. A falsy
  \<open>exp\<close> (absent, or the number 0) returns \<open>false\<close> before the clock is read.
\<close>

definition isExpired :: "env \<Rightarrow> world \<Rightarrow> (error + bool) \<times> world" where
  "isExpired e w =
     (case decode e w of
        (Inl err, w1) \<Rightarrow> (Inl err, w1)
      | (Inr r, w1) \<Rightarrow>
          (case user (this w1) of
             Some (Object u) \<Rightarrow>
               (case exp u of
                  None \<Rightarrow> (Inr False, w1)
                | Some x \<Rightarrow>
                    if x = 0 then (Inr False, w1)
                    else
                      let (now, w2) = new_Date e w1;
                          expired = isAfter now (new_Date_of (x * 1000))
                      in (Inr expired, w2))
           | _ \<Rightarrow> (Inl (TypeError ''Cannot destructure property 'exp' of null''), w1)))"

subsection \<open>What the browser holds and reports\<close>

text \<open>
  A browser that is given a cookie removes the cookie of that name and path when the
  cookie has expired at that time: \<open>Max-Age\<close> decides when it is present, \<open>Expires\<close>
  otherwise, and an expiry date that is not after the current time has passed.
\<close>

definition expired_at :: "int \<Rightarrow> cookie \<Rightarrow> bool" where
  "expired_at t c =
     (case maxAge (cookie_options c) of
        Some m \<Rightarrow> m \<le> 0
      | None \<Rightarrow>
          (case expires (cookie_options c) of
             Some (Date x) \<Rightarrow> x \<le> t
           | _ \<Rightarrow> False))"

text \<open>
  What a browser takes from the text \<open>name=value; attributes\<close> assigned to
  \<open>document.cookie\<close> (RFC 6265, 5.2): the text up to the first \<open>;\<close> is the pair, the
  pair is split at its first \<open>=\<close>, a pair without \<open>=\<close> is ignored, and blanks around
  the name and the value are dropped. \<open>serialize\<close> writes the name as it is and the
  value percent-encoded, so only a \<open>;\<close> or a \<open>=\<close> of the name can cut the text early;
  the value stands for what \<open>parse\<close> decodes again.
\<close>

definition blank :: "char \<Rightarrow> bool" where
  "blank c = (c = CHR '' '' \<or> c = CHR 0x09)"

definition trim :: "string \<Rightarrow> string" where
  "trim s = rev (dropWhile blank (rev (dropWhile blank s)))"

definition browser_pair :: "cookie \<Rightarrow> (string \<times> string) option" where
  "browser_pair c =
     (let n = cookie_name c;
          before_eq = takeWhile (\<lambda>x. x \<noteq> CHR ''='');
          after_eq = (\<lambda>s. drop 1 (dropWhile (\<lambda>x. x \<noteq> CHR ''='') s))
      in if CHR '';'' \<in> set n then
           (let pair = takeWhile (\<lambda>x. x \<noteq> CHR '';'') n
            in if CHR ''='' \<in> set pair
               then Some (trim (before_eq pair), trim (after_eq pair))
               else None)
         else if CHR ''='' \<in> set n
         then Some (trim (before_eq n), dropWhile blank (after_eq n) @ ''='' @ cookie_value c)
         else Some (trim n, cookie_value c))"

definition receive :: "int \<Rightarrow> cookie \<Rightarrow> (string \<rightharpoonup> string) \<Rightarrow> (string \<rightharpoonup> string)" where
  "receive t c jar =
     (case browser_pair c of
        None \<Rightarrow> jar
      | Some (n, v) \<Rightarrow> if expired_at t c then jar(n := None) else jar(n \<mapsto> v))"

text \<open>
  The cookies a browser holds at time \<open>t\<close> after the given assignments to
  \<open>document.cookie\<close>, all for one path and starting from none. A cookie string
  reports these cookies when \<open>parse\<close> maps it to this table.
\<close>

definition reported_cookies :: "int \<Rightarrow> cookie list \<Rightarrow> (string \<rightharpoonup> string)" where
  "reported_cookies t cs = fold (receive t) cs Map.empty"

text \<open>
  A prefix whose cookie names come back whole: it holds no \<open>;\<close> and no \<open>=\<close>, at
  which a browser cuts the name, and does not begin with a blank, which a browser
  drops, or with a no-break space, which \<open>cookie.parse\<close> trims from a name as well.
  These conditions are needed for a name to be reported as it was written; that it is
  reported so is a hypothesis on the cookie string wherever it matters.
\<close>

definition kept_whole :: "string \<Rightarrow> bool" where
  "kept_whole p =
     (CHR '';'' \<notin> set p \<and> CHR ''='' \<notin> set p \<and> (case p of [] \<Rightarrow> True | c # s \<Rightarrow> \<not> blank c \<and> c \<noteq> CHR 0xA0))"

subsection \<open>An environment to run the methods in\<close>

text \<open>
  A plain reader of cookie strings for the concrete runs below: the pairs are separated
  by \<open>;\<close>, leading blanks are dropped, a pair is split at its first \<open>=\<close>, and the
  first pair of a name wins.
\<close>

fun split_on :: "char \<Rightarrow> string \<Rightarrow> string list" where
  "split_on c [] = [[]]"
| "split_on c (x # xs) =
     (if x = c then [] # split_on c xs
      else (case split_on c xs of [] \<Rightarrow> [[x]] | y # ys \<Rightarrow> (x # y) # ys))"

definition pair_of :: "string \<Rightarrow> string \<times> string" where
  "pair_of s =
     (let t = dropWhile (\<lambda>c. c = CHR '' '') s
      in (takeWhile (\<lambda>c. c \<noteq> CHR ''='') t, drop 1 (dropWhile (\<lambda>c. c \<noteq> CHR ''='') t)))"

definition plain_parse :: "string \<Rightarrow> (string \<rightharpoonup> string)" where
  "plain_parse s = map_of (map pair_of (split_on CHR '';'' s))"

text \<open>
  An environment for the concrete runs: with or without a window, a clock that stands
  still at \<open>now\<close>, a decoder that yields the given payload or throws when there is
  none, and an \<open>add\<close> that counts a year as 365 days.
\<close>

definition test_env :: "bool \<Rightarrow> int \<Rightarrow> payload option \<Rightarrow> env" where
  "test_env window' now decoded =
     \<lparr>window = window',
      parse = plain_parse,
      jwt = (\<lambda>t. case decoded of
                    None \<Rightarrow> Inl (InvalidTokenError ''Invalid token specified'')
                  | Some c \<Rightarrow> Inr c),
      clock = (\<lambda>n. now),
      add = (\<lambda>d dur. case d of
                        Date t \<Rightarrow> Date (t + years dur * 31536000000)
                      | Invalid_Date \<Rightarrow> Invalid_Date)\<rparr>"

text \<open>A world in which nothing has happened yet; the constructor is run from it.\<close>

definition blank_world :: world where
  "blank_world =
     \<lparr>this = \<lparr>prefix = [], id_token = None, access_token = None, refresh_token = None,
              persist = None, user = None, cookie_string = None\<rparr>,
      document_cookie = [], console_error = [], clock_reads = 0\<rparr>"

section \<open>Properties\<close>

subsection \<open>What each method computes\<close>

lemma field_content_names:
  "field_content (p @ '':id_token'') = list_all field_char p"
  "field_content (p @ '':access_token'') = list_all field_char p"
  "field_content (p @ '':refresh_token'') = list_all field_char p"
  "field_content (p @ '':keep'') = list_all field_char p"
  by (simp_all add: field_content_def field_char_def)

lemma decode_eq:
  "decode e w =
     (Inr This,
      w\<lparr>this := (this w)
           \<lparr>user := Some (case jwt e (id_token (this w)) of
                            Inl err \<Rightarrow> Object empty_claims
                          | Inr decoded \<Rightarrow> decoded)\<rparr>\<rparr>)"
  by (simp add: decode_def split: sum.split)

lemma setTokens_browser:
  "window e \<Longrightarrow> list_all field_char (prefix (this w)) \<Longrightarrow>
   setTokens e a i r p w =
     (Inr This,
      (if p = Some True
       then w\<lparr>clock_reads := Suc (clock_reads w),
              this := (this w)\<lparr>access_token := Some a, id_token := Some i,
                               refresh_token := Some r, persist := Some True\<rparr>,
              document_cookie := document_cookie w @
                map (\<lambda>(n, v).
                       \<lparr>cookie_name = prefix (this w) @ n, cookie_value = v,
                        cookie_options =
                          \<lparr>expires = Some (add e (Date (clock e (clock_reads w))) \<lparr>years = 1\<rparr>),
                           maxAge = Some 31536000, path = None\<rparr>\<rparr>)
                  [('':id_token'', i), ('':access_token'', a), ('':refresh_token'', r),
                   ('':keep'', ''true'')]\<rparr>
       else w\<lparr>this := (this w)\<lparr>access_token := Some a, id_token := Some i,
                               refresh_token := Some r, persist := Some False\<rparr>,
              document_cookie := document_cookie w @
                map (\<lambda>(n, v).
                       \<lparr>cookie_name = prefix (this w) @ n, cookie_value = v,
                        cookie_options = \<lparr>expires = None, maxAge = None, path = None\<rparr>\<rparr>)
                  [('':id_token'', i), ('':access_token'', a), ('':refresh_token'', r)]\<rparr>))"
  by (simp add: setTokens_def new_Date_def serialize_def field_content_names
      assign_document_cookie_def DAY_def Let_def)

lemma setTokens_rejected_name:
  "window e \<Longrightarrow> \<not> list_all field_char (prefix (this w)) \<Longrightarrow>
   fst (setTokens e a i r p w) = Inl (TypeError ''argument name is invalid'')
   \<and> this (snd (setTokens e a i r p w)) = this w
   \<and> document_cookie (snd (setTokens e a i r p w)) = document_cookie w"
  by (simp add: setTokens_def new_Date_def serialize_def field_content_names Let_def)


lemma clearTokens_rejected_name:
  "window e \<Longrightarrow> \<not> list_all field_char (prefix (this w)) \<Longrightarrow>
   fst (clearTokens e w) = Inl (TypeError ''argument name is invalid'')
   \<and> document_cookie (snd (clearTokens e w)) = document_cookie w"
  by (simp add: clearTokens_def clear_one_def new_Date_def serialize_def field_content_names
      Let_def)

lemma clear_one_frame:
  "this (snd (clear_one e n w)) = this w
   \<and> console_error (snd (clear_one e n w)) = console_error w"
  by (simp add: clear_one_def new_Date_def assign_document_cookie_def split: sum.split)

lemma forEach_clear_one_frame:
  "this (snd (forEach (clear_one e) ns w)) = this w
   \<and> console_error (snd (forEach (clear_one e) ns w)) = console_error w"
proof (induction ns arbitrary: w)
  case Nil
  show ?case by simp
next
  case (Cons n ns)
  obtain r w1 where step: "clear_one e n w = (r, w1)"
    by (cases "clear_one e n w")
  with clear_one_frame [of e n w]
  have frame: "this w1 = this w" "console_error w1 = console_error w"
    by simp_all
  show ?case
  proof (cases r)
    case (Inl err)
    with step frame show ?thesis by simp
  next
    case (Inr u)
    with step frame Cons.IH [of w1] show ?thesis by simp
  qed
qed

lemma isExpired_eq:
  "isExpired e w =
     (case jwt e (id_token (this w)) of
        Inl err \<Rightarrow> (Inr False, w\<lparr>this := (this w)\<lparr>user := Some (Object empty_claims)\<rparr>\<rparr>)
      | Inr Null \<Rightarrow>
          (Inl (TypeError ''Cannot destructure property 'exp' of null''),
           w\<lparr>this := (this w)\<lparr>user := Some Null\<rparr>\<rparr>)
      | Inr (Object u) \<Rightarrow>
          (case exp u of
             None \<Rightarrow> (Inr False, w\<lparr>this := (this w)\<lparr>user := Some (Object u)\<rparr>\<rparr>)
           | Some x \<Rightarrow>
               if x = 0 then (Inr False, w\<lparr>this := (this w)\<lparr>user := Some (Object u)\<rparr>\<rparr>)
               else (Inr (isAfter (Date (clock e (clock_reads w))) (new_Date_of (x * 1000))),
                     w\<lparr>this := (this w)\<lparr>user := Some (Object u)\<rparr>,
                       clock_reads := Suc (clock_reads w)\<rparr>)))"
  by (simp add: isExpired_def decode_def new_Date_def empty_claims_def
      split: sum.split option.split payload.split)

lemma constructed:
  "this (constructor e p None blank_world) =
     \<lparr>prefix = p, id_token = None, access_token = None, refresh_token = None,
      persist = None, user = None, cookie_string = None\<rparr>"
  "document_cookie (constructor e p None blank_world) = []"
  "console_error (constructor e p None blank_world) = []"
  "clock_reads (constructor e p None blank_world) = 0"
  by (simp_all add: constructor_def blank_world_def)

text \<open>
  A name with a line feed in it: \<open>serialize\<close> rejects it, and \<open>setTokens\<close> throws in a
  browser with nothing written and no field assigned.
\<close>

lemma setTokens_control_character:
  "setTokens (test_env True 0 None) ''a'' ''T'' ''r'' None
     (constructor (test_env True 0 None) [CHR ''a'', CHR 0x0A, CHR ''b''] None blank_world)
   = (Inl (TypeError ''argument name is invalid''),
      constructor (test_env True 0 None) [CHR ''a'', CHR 0x0A, CHR ''b''] None blank_world)"
  by (simp add: setTokens_def serialize_def field_content_def field_char_def test_env_def
      constructor_def blank_world_def)

text \<open>
  A token whose payload is \<open>null\<close>: the decoder returns it, \<open>decode\<close> stores it and
  \<open>isExpired\<close> throws.
\<close>

lemma isExpired_null_payload:
  "jwt e (id_token (this w)) = Inr Null \<Longrightarrow>
   fst (isExpired e w) = Inl (TypeError ''Cannot destructure property 'exp' of null'')"
  by (simp add: isExpired_eq)

subsection \<open>What the browser holds after \<open>setTokens\<close>\<close>

lemma trim_names:
  assumes "kept_whole p"
  shows "trim (p @ '':id_token'') = p @ '':id_token''"
    and "trim (p @ '':access_token'') = p @ '':access_token''"
    and "trim (p @ '':refresh_token'') = p @ '':refresh_token''"
    and "trim (p @ '':keep'') = p @ '':keep''"
  using assms by (cases p; simp add: kept_whole_def trim_def blank_def)+

lemma browser_pair_names:
  assumes "kept_whole p"
  shows "browser_pair \<lparr>cookie_name = p @ '':id_token'', cookie_value = v, cookie_options = opts\<rparr>
           = Some (p @ '':id_token'', v)"
    and "browser_pair \<lparr>cookie_name = p @ '':access_token'', cookie_value = v, cookie_options = opts\<rparr>
           = Some (p @ '':access_token'', v)"
    and "browser_pair \<lparr>cookie_name = p @ '':refresh_token'', cookie_value = v, cookie_options = opts\<rparr>
           = Some (p @ '':refresh_token'', v)"
    and "browser_pair \<lparr>cookie_name = p @ '':keep'', cookie_value = v, cookie_options = opts\<rparr>
           = Some (p @ '':keep'', v)"
  using assms trim_names [OF assms] by (simp_all add: browser_pair_def kept_whole_def)

lemma reported_after_setTokens:
  assumes "window e" and "document_cookie w = []"
    and "list_all field_char (prefix (this w))" and "kept_whole (prefix (this w))"
  shows "reported_cookies t (document_cookie (snd (setTokens e a i r p w))) =
      (if p = Some True
       then [prefix (this w) @ '':id_token'' \<mapsto> i,
             prefix (this w) @ '':access_token'' \<mapsto> a,
             prefix (this w) @ '':refresh_token'' \<mapsto> r,
             prefix (this w) @ '':keep'' \<mapsto> ''true'']
       else [prefix (this w) @ '':id_token'' \<mapsto> i,
             prefix (this w) @ '':access_token'' \<mapsto> a,
             prefix (this w) @ '':refresh_token'' \<mapsto> r])"
  using assms(2)
  by (simp add: setTokens_browser [OF assms(1,3)] reported_cookies_def receive_def
      browser_pair_names [OF assms(4)] expired_at_def)

subsection \<open>Writing and reading back\<close>

text \<open>
  Claim C1, as amended. Take a prefix whose characters \<open>serialize\<close> accepts and whose
  cookie names come back whole (no \<open>;\<close>, no \<open>=\<close>, no blank or no-break space at its
  start), any token triplet and any persist flag. In a browser context with no cookie
  assigned before, \<open>setTokens\<close> returns the instance; and \<open>getTokens\<close>, called on that instance
  or on any other instance of the same prefix, with a cookie string that is not empty
  and that \<open>parse\<close> maps to the cookies the browser holds after the assignments of
  \<open>setTokens\<close>, returns the instance and leaves \<open>id_token\<close>, \<open>access_token\<close> and
  \<open>refresh_token\<close> equal to the three strings given and \<open>persist\<close> equal to the truth
  value of the flag given.
\<close>

theorem setTokens_getTokens_roundtrip:
  assumes "window e" and "document_cookie w = []"
    and "list_all field_char (prefix (this w))" and "kept_whole (prefix (this w))"
    and "prefix (this w2) = prefix (this w)" and "cs \<noteq> []"
    and "parse e cs = reported_cookies t (document_cookie (snd (setTokens e a i r p w)))"
  shows "fst (setTokens e a i r p w) = Inr This
    \<and> fst (getTokens e (Some cs) w2) = Inr This
    \<and> id_token (this (snd (getTokens e (Some cs) w2))) = Some i
    \<and> access_token (this (snd (getTokens e (Some cs) w2))) = Some a
    \<and> refresh_token (this (snd (getTokens e (Some cs) w2))) = Some r
    \<and> persist (this (snd (getTokens e (Some cs) w2))) = Some (p = Some True)"
proof -
  have parsed: "parse e cs =
      (if p = Some True
       then [prefix (this w) @ '':id_token'' \<mapsto> i,
             prefix (this w) @ '':access_token'' \<mapsto> a,
             prefix (this w) @ '':refresh_token'' \<mapsto> r,
             prefix (this w) @ '':keep'' \<mapsto> ''true'']
       else [prefix (this w) @ '':id_token'' \<mapsto> i,
             prefix (this w) @ '':access_token'' \<mapsto> a,
             prefix (this w) @ '':refresh_token'' \<mapsto> r])"
    using assms(7) reported_after_setTokens [OF assms(1-4)] by simp
  have returned: "fst (setTokens e a i r p w) = Inr This"
    by (simp add: setTokens_browser [OF assms(1,3)])
  show ?thesis
    using returned assms(5,6) by (simp add: getTokens_def parsed Let_def)
qed

text \<open>
  The theorem at prefix \<open>app\<close>, tokens \<open>T\<close>, \<open>a\<close>, \<open>r\<close> and \<open>persist = true\<close>: the
  cookie string lists the four cookies, the plain reader maps it to what the browser
  holds, and a second instance constructed with the same prefix reads the triplet and
  the flag from it.
\<close>

theorem setTokens_getTokens_roundtrip_witness:
  "window (test_env True 0 None)
   \<and> list_all field_char ''app'' \<and> kept_whole ''app''
   \<and> parse (test_env True 0 None)
        ''app:id_token=T; app:access_token=a; app:refresh_token=r; app:keep=true''
      = reported_cookies 0 (document_cookie (snd (setTokens (test_env True 0 None)
          ''a'' ''T'' ''r'' (Some True)
          (constructor (test_env True 0 None) ''app'' None blank_world))))
   \<and> this (snd (getTokens (test_env True 0 None)
        (Some ''app:id_token=T; app:access_token=a; app:refresh_token=r; app:keep=true'')
        (constructor (test_env True 0 None) ''app'' None blank_world)))
      = \<lparr>prefix = ''app'', id_token = Some ''T'', access_token = Some ''a'',
         refresh_token = Some ''r'', persist = Some True, user = None,
         cookie_string =
           Some ''app:id_token=T; app:access_token=a; app:refresh_token=r; app:keep=true''\<rparr>"
proof -
  let ?e = "test_env True 0 None"
  let ?w = "constructor ?e ''app'' None blank_world"
  let ?cs = "''app:id_token=T; app:access_token=a; app:refresh_token=r; app:keep=true''"
  have h1: "window ?e"
    by (simp add: test_env_def)
  have h2: "document_cookie ?w = []"
    by (simp add: constructed)
  have h3: "list_all field_char (prefix (this ?w))" and h4: "kept_whole (prefix (this ?w))"
    by (simp_all add: constructed field_char_def kept_whole_def blank_def)
  have h5: "prefix (this ?w) = prefix (this ?w)" and h6: "?cs \<noteq> []"
    by simp_all
  have parsed: "parse ?e ?cs = plain_parse ?cs"
    by (simp add: test_env_def)
  have h7: "parse ?e ?cs
      = reported_cookies 0 (document_cookie (snd (setTokens ?e ''a'' ''T'' ''r'' (Some True) ?w)))"
    unfolding parsed reported_after_setTokens [OF h1 h2 h3 h4]
    by (rule ext) (simp add: constructed plain_parse_def pair_of_def)
  have fields: "this (snd (getTokens ?e (Some ?cs) ?w)) =
      (this ?w)\<lparr>cookie_string := Some ?cs,
                 access_token := parse ?e ?cs (''app:access_token''),
                 id_token := parse ?e ?cs (''app:id_token''),
                 refresh_token := parse ?e ?cs (''app:refresh_token''),
                 persist := Some (truthy (parse ?e ?cs (''app:keep'')))\<rparr>"
    by (simp add: getTokens_def constructed Let_def)
  from setTokens_getTokens_roundtrip [OF h1 h2 h3 h4 h5 h6 h7] h1 h7 show ?thesis
    by (simp add: fields constructed field_char_def kept_whole_def blank_def)
qed

text \<open>
  Claim C1 as it was stated speaks of every prefix. With the prefix \<open>x=y\<close> the three
  assignments reach the browser as three values of one cookie named \<open>x\<close>; the cookie
  string it reports is \<open>x=y:refresh_token=r\<close>, and \<open>getTokens\<close> on it finds none of the
  three names: the tokens that \<open>setTokens\<close> had put into the fields are gone.
\<close>

theorem setTokens_getTokens_prefix_counterexample:
  "window (test_env True 0 None)
   \<and> fst (setTokens (test_env True 0 None) ''a'' ''T'' ''r'' None
        (constructor (test_env True 0 None) ''x=y'' None blank_world)) = Inr This
   \<and> parse (test_env True 0 None) ''x=y:refresh_token=r''
      = reported_cookies 0 (document_cookie (snd (setTokens (test_env True 0 None)
          ''a'' ''T'' ''r'' None
          (constructor (test_env True 0 None) ''x=y'' None blank_world))))
   \<and> id_token (this (snd (getTokens (test_env True 0 None) (Some ''x=y:refresh_token=r'')
        (snd (setTokens (test_env True 0 None) ''a'' ''T'' ''r'' None
          (constructor (test_env True 0 None) ''x=y'' None blank_world)))))) = None
   \<and> access_token (this (snd (getTokens (test_env True 0 None) (Some ''x=y:refresh_token=r'')
        (snd (setTokens (test_env True 0 None) ''a'' ''T'' ''r'' None
          (constructor (test_env True 0 None) ''x=y'' None blank_world)))))) = None
   \<and> refresh_token (this (snd (getTokens (test_env True 0 None) (Some ''x=y:refresh_token=r'')
        (snd (setTokens (test_env True 0 None) ''a'' ''T'' ''r'' None
          (constructor (test_env True 0 None) ''x=y'' None blank_world)))))) = None"
proof -
  let ?e = "test_env True 0 None"
  let ?w = "constructor ?e ''x=y'' None blank_world"
  let ?cs = "''x=y:refresh_token=r''"
  have h1: "window ?e"
    by (simp add: test_env_def)
  have chars: "list_all field_char (prefix (this ?w))"
    by (simp add: constructed field_char_def)
  have written: "snd (setTokens ?e ''a'' ''T'' ''r'' None ?w) =
      ?w\<lparr>this := (this ?w)\<lparr>access_token := Some ''a'', id_token := Some ''T'',
                              refresh_token := Some ''r'', persist := Some False\<rparr>,
         document_cookie :=
           map (\<lambda>(n, v).
                  \<lparr>cookie_name = ''x=y'' @ n, cookie_value = v,
                   cookie_options = \<lparr>expires = None, maxAge = None, path = None\<rparr>\<rparr>)
             [('':id_token'', ''T''), ('':access_token'', ''a''), ('':refresh_token'', ''r'')]\<rparr>"
    and returned: "fst (setTokens ?e ''a'' ''T'' ''r'' None ?w) = Inr This"
    by (simp_all add: setTokens_browser [OF h1 chars] constructed)
  have parsed: "parse ?e ?cs = plain_parse ?cs"
    by (simp add: test_env_def)
  have table: "plain_parse ?cs = [''x'' \<mapsto> ''y:refresh_token=r'']"
    by (rule ext) (simp add: plain_parse_def pair_of_def)
  have held: "reported_cookies 0 (document_cookie (snd (setTokens ?e ''a'' ''T'' ''r'' None ?w)))
      = [''x'' \<mapsto> ''y:refresh_token=r'']"
    unfolding written
    by (simp add: reported_cookies_def receive_def browser_pair_def expired_at_def
        trim_def blank_def)
  have read: "this (snd (getTokens ?e (Some ?cs) (snd (setTokens ?e ''a'' ''T'' ''r'' None ?w))))
      = \<lparr>prefix = ''x=y'', id_token = None, access_token = None, refresh_token = None,
         persist = Some False, user = None, cookie_string = Some ?cs\<rparr>"
    unfolding written
    by (simp add: getTokens_def parsed table constructed Let_def)
  show ?thesis
    using h1 returned parsed table held read by simp
qed

subsection \<open>Persistence\<close>

text \<open>
  Claim C2. In a browser context, for a prefix whose characters \<open>serialize\<close> accepts,
  \<open>setTokens\<close> with \<open>persist = true\<close> assigns four cookies, the three tokens and
  \<open>keep\<close> with the value \<open>true\<close>, and each is serialized with \<open>expires\<close> one year
  after the clock reading (\<open>add\<close> of that reading and one year) and \<open>maxAge\<close> of
  365 * 86400 seconds. With \<open>persist = false\<close>, or with no \<open>persist\<close> at all, it
  assigns exactly the three token cookies, serialized with neither \<open>expires\<close> nor
  \<open>maxAge\<close>, and no \<open>keep\<close> cookie. In each case the call returns the instance.
\<close>

theorem setTokens_persistence_policy:
  assumes "window e" and "list_all field_char (prefix (this w))"
  shows "document_cookie (snd (setTokens e a i r (Some True) w)) =
      document_cookie w @
        map (\<lambda>(n, v).
               \<lparr>cookie_name = prefix (this w) @ n, cookie_value = v,
                cookie_options =
                  \<lparr>expires = Some (add e (Date (clock e (clock_reads w))) \<lparr>years = 1\<rparr>),
                   maxAge = Some (365 * 86400), path = None\<rparr>\<rparr>)
          [('':id_token'', i), ('':access_token'', a), ('':refresh_token'', r),
           ('':keep'', ''true'')]
    \<and> document_cookie (snd (setTokens e a i r (Some False) w)) =
      document_cookie w @
        map (\<lambda>(n, v).
               \<lparr>cookie_name = prefix (this w) @ n, cookie_value = v,
                cookie_options = \<lparr>expires = None, maxAge = None, path = None\<rparr>\<rparr>)
          [('':id_token'', i), ('':access_token'', a), ('':refresh_token'', r)]
    \<and> document_cookie (snd (setTokens e a i r None w)) =
      document_cookie (snd (setTokens e a i r (Some False) w))
    \<and> fst (setTokens e a i r (Some True) w) = Inr This
    \<and> fst (setTokens e a i r (Some False) w) = Inr This
    \<and> fst (setTokens e a i r None w) = Inr This"
  by (simp add: setTokens_browser [OF assms])

text \<open>
  The theorem at prefix \<open>app\<close> with the clock at 1000 ms: the four cookies expire at
  1000 ms plus one year and carry \<open>maxAge = 31536000\<close>; without \<open>persist\<close> the three
  cookies carry no attribute.
\<close>

theorem setTokens_persistence_policy_witness:
  "window (test_env True 1000 None) \<and> list_all field_char ''app''
   \<and> document_cookie (snd (setTokens (test_env True 1000 None) ''a'' ''T'' ''r'' (Some True)
        (constructor (test_env True 1000 None) ''app'' None blank_world))) =
      map (\<lambda>(n, v).
             \<lparr>cookie_name = n, cookie_value = v,
              cookie_options =
                \<lparr>expires = Some (Date 31536001000), maxAge = Some 31536000, path = None\<rparr>\<rparr>)
        [(''app:id_token'', ''T''), (''app:access_token'', ''a''),
         (''app:refresh_token'', ''r''), (''app:keep'', ''true'')]
   \<and> document_cookie (snd (setTokens (test_env True 1000 None) ''a'' ''T'' ''r'' None
        (constructor (test_env True 1000 None) ''app'' None blank_world))) =
      map (\<lambda>(n, v).
             \<lparr>cookie_name = n, cookie_value = v,
              cookie_options = \<lparr>expires = None, maxAge = None, path = None\<rparr>\<rparr>)
        [(''app:id_token'', ''T''), (''app:access_token'', ''a''),
         (''app:refresh_token'', ''r'')]"
proof -
  let ?e = "test_env True 1000 None"
  let ?w = "constructor ?e ''app'' None blank_world"
  have h1: "window ?e"
    by (simp add: test_env_def)
  have chars: "list_all field_char ''app''"
    by (simp add: field_char_def)
  then have h2: "list_all field_char (prefix (this ?w))"
    by (simp add: constructed)
  have e: "clock ?e 0 = 1000" "add ?e (Date 1000) \<lparr>years = 1\<rparr> = Date 31536001000"
    by (simp_all add: test_env_def)
  from setTokens_persistence_policy [OF h1 h2, of "''a''" "''T''" "''r''"] h1 chars
  show ?thesis
    by (simp add: constructed e)
qed

subsection \<open>Expiry\<close>

text \<open>
  Claim C3 says that \<open>isExpired\<close> returns \<open>false\<close> when the decoded claims have no
  \<open>exp\<close>, and otherwise \<open>true\<close> exactly when the current time is strictly after
  \<open>exp * 1000\<close> ms. For a payload \<open>{exp: 0}\<close> and the clock at 5 ms, \<open>exp\<close> is present
  and the clock is strictly after \<open>0 * 1000\<close>, yet the guard \<open>if (!exp)\<close> takes the
  number 0 for an absent claim and the call returns \<open>false\<close>.
\<close>

theorem isExpired_epoch_not_expired:
  "jwt (test_env True 5 (Some (Object (empty_claims\<lparr>exp := Some 0\<rparr>))))
       (id_token (this blank_world)) = Inr (Object (empty_claims\<lparr>exp := Some 0\<rparr>))
   \<and> exp (empty_claims\<lparr>exp := Some 0\<rparr>) = Some 0
   \<and> (0::int) * 1000 < clock (test_env True 5 (Some (Object (empty_claims\<lparr>exp := Some 0\<rparr>))))
        (clock_reads blank_world)
   \<and> fst (isExpired (test_env True 5 (Some (Object (empty_claims\<lparr>exp := Some 0\<rparr>))))
        blank_world) = Inr False"
  by (simp add: isExpired_eq test_env_def)

text \<open>
  The scenario of the specification: payload \<open>{exp: 1000}\<close>, with the clock at
  2000000 ms and at 500 ms.
\<close>

lemma isExpired_scenario:
  "fst (isExpired (test_env True 2000000 (Some (Object (empty_claims\<lparr>exp := Some 1000\<rparr>))))
      blank_world) = Inr True
   \<and> fst (isExpired (test_env True 500 (Some (Object (empty_claims\<lparr>exp := Some 1000\<rparr>))))
      blank_world) = Inr False"
  by (simp add: isExpired_eq test_env_def new_Date_of_def)

subsection \<open>Decoding\<close>

text \<open>
  Claim C4. \<open>decode\<close> never propagates an exception: whatever \<open>id_token\<close> holds
  (nothing, a malformed string, a string that is no token), the call returns the
  instance. When the decoder throws, \<open>user\<close> is the empty mapping afterwards; when it
  succeeds, \<open>user\<close> is the decoded payload. No other field and nothing else of the
  world changes.
\<close>

theorem decode_absorbs_failure:
  "fst (decode e w) = Inr This
   \<and> snd (decode e w) =
       w\<lparr>this := (this w)
            \<lparr>user := Some (case jwt e (id_token (this w)) of
                             Inl err \<Rightarrow> Object empty_claims
                           | Inr decoded \<Rightarrow> decoded)\<rparr>\<rparr>"
  by (simp add: decode_eq)

subsection \<open>Outside a browser\<close>

text \<open>
  Claim C5, as amended. Without a window, \<open>setTokens\<close> throws an \<open>Error\<close> whose
  message is \<open>Trying to set cookie in a server-side environment\<close>; nothing is
  assigned to \<open>document.cookie\<close>, no field of the instance changes, and the exception
  is not caught: the world after the call is the world before it.
\<close>

theorem setTokens_server_side_throws:
  assumes "\<not> window e"
  shows "setTokens e a i r p w
    = (Inl (Error ''Trying to set cookie in a server-side environment''), w)"
  using assms by (simp add: setTokens_def)

text \<open>
  The theorem without a window, from a world in which nothing has happened.
\<close>

theorem setTokens_server_side_throws_witness:
  "\<not> window (test_env False 0 None)
   \<and> setTokens (test_env False 0 None) ''a'' ''T'' ''r'' (Some True) blank_world
     = (Inl (Error ''Trying to set cookie in a server-side environment''), blank_world)"
proof -
  have h: "\<not> window (test_env False 0 None)"
    by (simp add: test_env_def)
  from setTokens_server_side_throws [OF h] h show ?thesis
    by simp
qed

text \<open>
  Claim C5 as it was stated names the message
  \<open>cannot set cookies outside a client context\<close>; the message thrown is another one.
\<close>

theorem setTokens_server_side_message_counterexample:
  "fst (setTokens (test_env False 0 None) ''a'' ''T'' ''r'' (Some True) blank_world)
     = Inl (Error ''Trying to set cookie in a server-side environment'')
   \<and> ''Trying to set cookie in a server-side environment''
       \<noteq> ''cannot set cookies outside a client context''"
  by (simp add: setTokens_def test_env_def)

subsection \<open>Clearing\<close>




text \<open>
  Claim C7. In a browser context \<open>clearTokens\<close> leaves the instance as it was:
  \<open>prefix\<close>, \<open>id_token\<close>, \<open>access_token\<close>, \<open>refresh_token\<close>, \<open>persist\<close>, \<open>user\<close>
  and \<open>cookie_string\<close> hold the values they held before the call. Nothing is logged
  either; the call only assigns cookies.
\<close>

theorem clearTokens_keeps_fields:
  assumes "window e"
  shows "this (snd (clearTokens e w)) = this w
    \<and> console_error (snd (clearTokens e w)) = console_error w"
proof -
  let ?p = "prefix (this w)"
  let ?ns = "[?p @ '':access_token'', ?p @ '':id_token'', ?p @ '':refresh_token'', ?p @ '':keep'']"
  obtain r w1 where run: "forEach (clear_one e) ?ns w = (r, w1)"
    by (cases "forEach (clear_one e) ?ns w")
  with forEach_clear_one_frame [of e ?ns w]
  have frame: "this w1 = this w" "console_error w1 = console_error w"
    by simp_all
  have "snd (clearTokens e w) = w1"
    using assms run by (cases r) (simp_all add: clearTokens_def Let_def)
  with frame show ?thesis by simp
qed

text \<open>
  The theorem after \<open>setTokens\<close> at prefix \<open>app\<close>: the tokens are still in the
  fields once the cookies have been cleared.
\<close>

theorem clearTokens_keeps_fields_witness:
  "window (test_env True 7 None)
   \<and> this (snd (clearTokens (test_env True 7 None)
        (snd (setTokens (test_env True 7 None) ''a'' ''T'' ''r'' (Some True)
           (constructor (test_env True 7 None) ''app'' None blank_world)))))
     = \<lparr>prefix = ''app'', id_token = Some ''T'', access_token = Some ''a'',
        refresh_token = Some ''r'', persist = Some True, user = None,
        cookie_string = None\<rparr>"
proof -
  let ?e = "test_env True 7 None"
  let ?start = "constructor ?e ''app'' None blank_world"
  let ?w = "snd (setTokens ?e ''a'' ''T'' ''r'' (Some True) ?start)"
  have h: "window ?e"
    by (simp add: test_env_def)
  have chars: "list_all field_char (prefix (this ?start))"
    by (simp add: constructed field_char_def)
  have w: "this ?w = \<lparr>prefix = ''app'', id_token = Some ''T'', access_token = Some ''a'',
        refresh_token = Some ''r'', persist = Some True, user = None,
        cookie_string = None\<rparr>"
    by (simp add: setTokens_browser [OF h chars] constructed)
  from clearTokens_keeps_fields [OF h, of ?w] h show ?thesis
    by (simp add: w)
qed

subsection \<open>Reading with no cookie string\<close>

text \<open>
  Claim C8. \<open>getTokens\<close> called with no argument on an instance that holds no cookie
  string (constructed without one, nothing read before) does nothing: it returns the
  instance, throws nothing and leaves every field, and the rest of the world, as it
  was.
\<close>

theorem getTokens_without_cookie_string:
  assumes "cookie_string (this w) = None"
  shows "getTokens e None w = (Inr This, w)"
  using assms by (simp add: getTokens_def)

text \<open>
  The theorem on an instance constructed with prefix \<open>app\<close> and no cookie string.
\<close>

theorem getTokens_without_cookie_string_witness:
  "cookie_string (this (constructor (test_env True 0 None) ''app'' None blank_world)) = None
   \<and> getTokens (test_env True 0 None) None
        (constructor (test_env True 0 None) ''app'' None blank_world)
     = (Inr This, constructor (test_env True 0 None) ''app'' None blank_world)"
proof -
  let ?w = "constructor (test_env True 0 None) ''app'' None blank_world"
  have h: "cookie_string (this ?w) = None"
    by (simp add: constructor_def)
  from getTokens_without_cookie_string [OF h] h show ?thesis
    by simp
qed

subsection \<open>Clearing outside a browser\<close>

text \<open>
  Claim C9 says that \<open>clearTokens\<close> without a window logs an error, assigns no
  cookie and returns the instance. Run on an instance constructed with prefix
  \<open>app\<close>, it logs and assigns nothing, but the bare \<open>return\<close> of that branch gives
  \<open>undefined\<close>, not the instance.
\<close>

theorem clearTokens_server_side_returns_undefined:
  "clearTokens (test_env False 0 None) (constructor (test_env False 0 None) ''app'' None blank_world)
   = (Inr Undefined,
      (constructor (test_env False 0 None) ''app'' None blank_world)
        \<lparr>console_error := [''Trying to remove cookie in a server-side environment'']\<rparr>)
   \<and> Inr Undefined \<noteq> (Inr This :: error + retval)"
  by (simp add: clearTokens_def test_env_def constructor_def blank_world_def)

subsection \<open>Expiry at the epoch\<close>

text \<open>
  Claim C10. When the decoded claims hold \<open>exp = 0\<close>, \<open>isExpired\<close> returns
  \<open>false\<close>, whatever the clock says: the test on \<open>exp\<close> takes 0 for an absent claim.
\<close>

theorem isExpired_exp_zero:
  assumes "jwt e (id_token (this w)) = Inr (Object decoded)" and "exp decoded = Some 0"
  shows "fst (isExpired e w) = Inr False"
  using assms by (simp add: isExpired_eq)

text \<open>
  The theorem for a payload \<open>{exp: 0}\<close> with the clock at 2000000 ms.
\<close>

theorem isExpired_exp_zero_witness:
  "jwt (test_env True 2000000 (Some (Object (empty_claims\<lparr>exp := Some 0\<rparr>))))
       (id_token (this blank_world)) = Inr (Object (empty_claims\<lparr>exp := Some 0\<rparr>))
   \<and> exp (empty_claims\<lparr>exp := Some 0\<rparr>) = Some 0
   \<and> fst (isExpired (test_env True 2000000 (Some (Object (empty_claims\<lparr>exp := Some 0\<rparr>))))
        blank_world) = Inr False"
proof -
  let ?p = "empty_claims\<lparr>exp := Some 0\<rparr>"
  let ?e = "test_env True 2000000 (Some (Object ?p))"
  have h1: "jwt ?e (id_token (this blank_world)) = Inr (Object ?p)"
    by (simp add: test_env_def)
  have h2: "exp ?p = Some 0"
    by simp
  from isExpired_exp_zero [OF h1 h2] h1 h2 show ?thesis
    by simp
qed

end
